theory Spec2Isabelle
  imports Complex_Main
begin

section \<open>Password analyzer and generator: the model\<close>

text \<open>
  A shallow embedding of \<^verbatim>\<open>password_analyzer.py\<close>.

  \<^item> A Python \<^verbatim>\<open>str\<close> is a \<^typ>\<open>string\<close>; one \<^typ>\<open>char\<close> stands for one code point
    below 256 (ASCII and Latin-1), read through \<^term>\<open>of_char\<close>.
  \<^item> A Python \<^verbatim>\<open>int\<close> is an \<^typ>\<open>int\<close>.
  \<^item> A Python \<^verbatim>\<open>float\<close> is idealised as a \<^typ>\<open>real\<close>: \<^verbatim>\<open>math.log2\<close> is the exact
    logarithm and \<^verbatim>\<open>round(x, 2)\<close> rounds the exact value to hundredths, ties to even.
    The rounding errors of IEEE doubles are not modelled, so the exact value of an entropy
    in the model may differ from the double the code returns in the last decimal place.
    Only order properties that the double operations share (comparison with a threshold,
    monotonicity) are stated about entropies; the pool size is an integer and exact.
  \<^item> The optional blacklist (\<^verbatim>\<open>set = None\<close>) is a \<^typ>\<open>string set option\<close>.
  \<^item> The clock read by \<^verbatim>\<open>datetime.now()\<close> and the draws of \<^verbatim>\<open>secrets.choice\<close> are
    explicit arguments.
\<close>

subsection \<open>Regular expressions and string methods used by the analyzer\<close>

text \<open>\<^verbatim>\<open>re.search\<close> of a one-character class: scan for the first character in the class.\<close>

fun re_search_class :: "(char \<Rightarrow> bool) \<Rightarrow> string \<Rightarrow> bool" where
  "re_search_class cls [] = False"
| "re_search_class cls (c # cs) = (cls c \<or> re_search_class cls cs)"

text \<open>The classes \<^verbatim>\<open>[a-z]\<close>, \<^verbatim>\<open>[A-Z]\<close>, \<^verbatim>\<open>[0-9]\<close> and \<^verbatim>\<open>[^a-zA-Z0-9]\<close>.\<close>

definition lower_class :: "char \<Rightarrow> bool" where
  "lower_class c = (97 \<le> (of_char c :: nat) \<and> (of_char c :: nat) \<le> 122)"

definition upper_class :: "char \<Rightarrow> bool" where
  "upper_class c = (65 \<le> (of_char c :: nat) \<and> (of_char c :: nat) \<le> 90)"

definition digit_class :: "char \<Rightarrow> bool" where
  "digit_class c = (48 \<le> (of_char c :: nat) \<and> (of_char c :: nat) \<le> 57)"

definition other_class :: "char \<Rightarrow> bool" where
  "other_class c = (\<not> (lower_class c \<or> upper_class c \<or> digit_class c))"

text \<open>
  The pattern \<^verbatim>\<open>.\<close> (no \<^verbatim>\<open>re.DOTALL\<close>): any character except the line feed.
\<close>

definition dot_class :: "char \<Rightarrow> bool" where
  "dot_class c = (c \<noteq> CHR 0x0A)"

text \<open>
  \<^verbatim>\<open>str.lower()\<close> on code points below 256: the ASCII capitals and the Latin-1 capitals
  (192 to 222 except the multiplication sign 215) move up by 32.
\<close>

definition lower_char :: "char \<Rightarrow> char" where
  "lower_char c =
     (let n = (of_char c :: nat)
      in if (65 \<le> n \<and> n \<le> 90) \<or> (192 \<le> n \<and> n \<le> 222 \<and> n \<noteq> 215)
         then char_of (n + 32) else c)"

definition lower :: "string \<Rightarrow> string" where
  "lower s = map lower_char s"

text \<open>\<^verbatim>\<open>p in s\<close> for strings: \<^verbatim>\<open>p\<close> occurs in \<^verbatim>\<open>s\<close> as a contiguous substring.\<close>

fun startswith :: "string \<Rightarrow> string \<Rightarrow> bool" where
  "startswith s [] = True"
| "startswith [] (p # ps) = False"
| "startswith (c # cs) (p # ps) = (c = p \<and> startswith cs ps)"

fun str_contains :: "string \<Rightarrow> string \<Rightarrow> bool" where
  "str_contains [] p = (p = [])"
| "str_contains (c # cs) p = (startswith (c # cs) p \<or> str_contains cs p)"

subsection \<open>Entropy\<close>

text \<open>\<^verbatim>\<open>round(x, 2)\<close>: to the nearest hundredth, a tie going to the even neighbour.\<close>

definition round_half_even :: "real \<Rightarrow> int" where
  "round_half_even y =
     (let f = \<lfloor>y\<rfloor>
      in if y - real_of_int f < 1 / 2 then f
         else if 1 / 2 < y - real_of_int f then f + 1
         else if even f then f else f + 1)"

definition round2 :: "real \<Rightarrow> real" where
  "round2 x = real_of_int (round_half_even (x * 100)) / 100"

definition charset_pool :: "string \<Rightarrow> int" where
  "charset_pool password =
     (let pool = 0;
          pool = (if re_search_class lower_class password then pool + 26 else pool);
          pool = (if re_search_class upper_class password then pool + 26 else pool);
          pool = (if re_search_class digit_class password then pool + 10 else pool);
          pool = (if re_search_class other_class password then pool + 32 else pool)
      in pool)"

definition calculate_entropy :: "string \<Rightarrow> real" where
  "calculate_entropy password =
     (let pool = charset_pool password
      in if pool = 0 \<or> length password = 0 then 0
         else round2 (real (length password) * log 2 (real_of_int pool)))"

subsection \<open>Pattern checks\<close>

text \<open>\<^verbatim>\<open>re.search(r"(.)\1\1", pwd)\<close>: scan for a character matched by \<^verbatim>\<open>.\<close> and followed
  by two copies of itself.\<close>

fun has_repeated_sequence :: "string \<Rightarrow> bool" where
  "has_repeated_sequence (a # b # c # rest) =
     ((dot_class a \<and> b = a \<and> c = a) \<or> has_repeated_sequence (b # c # rest))"
| "has_repeated_sequence pwd = False"

definition patterns :: "string list" where
  "patterns = [''qwerty'', ''asdf'', ''1234'', ''password'', ''abcd'', ''1111'']"

definition is_keyboard_pattern :: "string \<Rightarrow> bool" where
  "is_keyboard_pattern pwd = (let lowered = lower pwd in list_ex (\<lambda>p. str_contains lowered p) patterns)"

subsection \<open>Strength analysis\<close>

text \<open>The running pair \<^verbatim>\<open>(score, remarks)\<close> is threaded through the four sections of
  \<^verbatim>\<open>check_strength\<close>, in the order of the source.\<close>

type_synonym acc = "int \<times> string list"

definition length_scoring :: "string \<Rightarrow> acc \<Rightarrow> acc" where
  "length_scoring password = (\<lambda>(score, remarks).
     if 16 \<le> length password then (score + 3, remarks)
     else if 12 \<le> length password then (score + 2, remarks)
     else if 8 \<le> length password then (score + 1, remarks)
     else (score, remarks @ [''Too short (min 8 chars)'']))"

definition variety :: "(char \<Rightarrow> bool) \<Rightarrow> string \<Rightarrow> string \<Rightarrow> acc \<Rightarrow> acc" where
  "variety cls remark password = (\<lambda>(score, remarks).
     if re_search_class cls password then (score + 1, remarks)
     else (score, remarks @ [remark]))"

definition character_variety :: "string \<Rightarrow> acc \<Rightarrow> acc" where
  "character_variety password a =
     variety other_class ''Add symbols (!, @, #, etc.)'' password
       (variety digit_class ''Add digits'' password
         (variety upper_class ''Add uppercase letters'' password
           (variety lower_class ''Add lowercase letters'' password a)))"

definition penalties :: "string \<Rightarrow> acc \<Rightarrow> acc" where
  "penalties password = (\<lambda>(score, remarks).
     let (score, remarks) =
           (if has_repeated_sequence password
            then (score - 1, remarks @ [''Contains repeated characters''])
            else (score, remarks))
     in if is_keyboard_pattern password
        then (score - 1, remarks @ [''Contains common pattern (qwerty/1234)''])
        else (score, remarks))"

definition blacklist_check :: "string \<Rightarrow> string set option \<Rightarrow> acc \<Rightarrow> bool \<times> acc" where
  "blacklist_check password blacklist = (\<lambda>(score, remarks).
     if blacklist \<noteq> None \<and> lower password \<in> the blacklist
     then (True, score - 2, remarks @ [''Found in common-password blacklist''])
     else (False, score, remarks))"

text \<open>The state of \<^verbatim>\<open>check_strength\<close> just before the score is clamped:
  \<^verbatim>\<open>blacklisted\<close>, the raw \<^verbatim>\<open>score\<close> and \<^verbatim>\<open>remarks\<close>.\<close>

definition accumulate :: "string \<Rightarrow> string set option \<Rightarrow> bool \<times> acc" where
  "accumulate password blacklist =
     blacklist_check password blacklist
       (penalties password (character_variety password (length_scoring password (0, []))))"

record analysis =
  res_password :: string
  res_length :: int
  res_entropy :: real
  res_score :: int
  res_level :: string
  res_remarks :: "string list"
  res_timestamp :: string

definition check_strength :: "string \<Rightarrow> string \<Rightarrow> string set option \<Rightarrow> analysis" where
  "check_strength now password blacklist =
     (let (blacklisted, score, remarks) = accumulate password blacklist;
          entropy = calculate_entropy password;
          score = (if score < 0 then 0 else score);
          score = (if 8 < score then 8 else score);
          level = (if blacklisted then ''Very Weak''
                   else if 80 \<le> entropy \<and> 6 \<le> score then ''Strong''
                   else if 50 \<le> entropy \<and> 4 \<le> score then ''Medium''
                   else ''Weak'')
      in \<lparr>res_password = password, res_length = int (length password),
          res_entropy = entropy, res_score = score, res_level = level,
          res_remarks = remarks, res_timestamp = now\<rparr>)"

subsection \<open>Password generator\<close>

datatype py_error = IndexError

text \<open>\<^verbatim>\<open>secrets.choice(seq)\<close>: \<^verbatim>\<open>IndexError\<close> on an empty sequence, else the element at a
  random index below \<^verbatim>\<open>len(seq)\<close>; \<open>r\<close> is the raw draw of the random source.\<close>

definition choice :: "nat \<Rightarrow> string \<Rightarrow> py_error + char" where
  "choice r seq = (if seq = [] then Inl IndexError else Inr (seq ! (r mod length seq)))"

text \<open>The generator expression \<^verbatim>\<open>secrets.choice(charset) for _ in range(length)\<close> joined
  into a string: one draw per iteration, the first error ends it.\<close>

fun join_choices :: "(nat \<Rightarrow> nat) \<Rightarrow> string \<Rightarrow> nat \<Rightarrow> py_error + string" where
  "join_choices rnd charset 0 = Inr []"
| "join_choices rnd charset (Suc n) =
     (case choice (rnd 0) charset of
        Inl e \<Rightarrow> Inl e
      | Inr c \<Rightarrow> (case join_choices (\<lambda>i. rnd (Suc i)) charset n of
                    Inl e \<Rightarrow> Inl e
                  | Inr cs \<Rightarrow> Inr (c # cs)))"

definition ascii_lowercase :: string where
  "ascii_lowercase = ''abcdefghijklmnopqrstuvwxyz''"

definition ascii_uppercase :: string where
  "ascii_uppercase = ''ABCDEFGHIJKLMNOPQRSTUVWXYZ''"

definition digits :: string where
  "digits = ''0123456789''"

definition symbols :: string where
  "symbols = ''!@#$%^&*()-_=+[]{};:,.<>/?''"

definition gen_charset :: "bool \<Rightarrow> bool \<Rightarrow> bool \<Rightarrow> string" where
  "gen_charset use_upper use_digits use_symbols =
     (let charset = ascii_lowercase;
          charset = (if use_upper then charset @ ascii_uppercase else charset);
          charset = (if use_digits then charset @ digits else charset);
          charset = (if use_symbols then charset @ symbols else charset)
      in charset)"

definition generate_password :: "(nat \<Rightarrow> nat) \<Rightarrow> int \<Rightarrow> bool \<Rightarrow> bool \<Rightarrow> bool \<Rightarrow> py_error + string" where
  "generate_password rnd len use_upper use_digits use_symbols =
     join_choices rnd (gen_charset use_upper use_digits use_symbols) (nat len)"

text \<open>A concrete random source for evaluating the generator: the draws 3, 10, 17, ...\<close>

definition sample_draws :: "nat \<Rightarrow> nat" where
  "sample_draws i = 7 * i + 3"

section \<open>Properties\<close>

subsection \<open>Closed forms of the scoring pipeline\<close>

lemma re_search_class_iff: "re_search_class cls s = (\<exists>c\<in>set s. cls c)"
  by (induction s) auto

lemma fst_length_scoring:
  "fst (length_scoring password a) =
     fst a + (if 16 \<le> length password then 3 else if 12 \<le> length password then 2
              else if 8 \<le> length password then 1 else 0)"
  by (simp add: length_scoring_def split_def)

lemma snd_length_scoring:
  "snd (length_scoring password a) =
     snd a @ (if length password < 8 then [''Too short (min 8 chars)''] else [])"
  by (simp add: length_scoring_def split_def)

lemma fst_variety:
  "fst (variety cls remark password a) = fst a + (if re_search_class cls password then 1 else 0)"
  by (simp add: variety_def split_def)

lemma snd_variety:
  "snd (variety cls remark password a) =
     snd a @ (if re_search_class cls password then [] else [remark])"
  by (simp add: variety_def split_def)

lemma fst_character_variety:
  "fst (character_variety password a) =
     fst a + (if re_search_class lower_class password then 1 else 0)
           + (if re_search_class upper_class password then 1 else 0)
           + (if re_search_class digit_class password then 1 else 0)
           + (if re_search_class other_class password then 1 else 0)"
  unfolding character_variety_def fst_variety by (rule refl)

lemma snd_character_variety:
  "snd (character_variety password a) =
     snd a @ (if re_search_class lower_class password then [] else [''Add lowercase letters''])
           @ (if re_search_class upper_class password then [] else [''Add uppercase letters''])
           @ (if re_search_class digit_class password then [] else [''Add digits''])
           @ (if re_search_class other_class password then []
              else [''Add symbols (!, @, #, etc.)''])"
  unfolding character_variety_def snd_variety append_assoc by (rule refl)

lemma fst_penalties:
  "fst (penalties password a) =
     fst a - (if has_repeated_sequence password then 1 else 0)
           - (if is_keyboard_pattern password then 1 else 0)"
  by (simp add: penalties_def split_def)

lemma snd_penalties:
  "snd (penalties password a) =
     snd a @ (if has_repeated_sequence password then [''Contains repeated characters''] else [])
           @ (if is_keyboard_pattern password
              then [''Contains common pattern (qwerty/1234)''] else [])"
  by (simp add: penalties_def split_def)

lemma blacklisted_accumulate:
  "fst (accumulate password blacklist) =
     (case blacklist of None \<Rightarrow> False | Some bl \<Rightarrow> lower password \<in> bl)"
  by (cases blacklist) (simp_all add: accumulate_def blacklist_check_def split_def)

lemma score_accumulate:
  "fst (snd (accumulate password blacklist)) =
     fst (penalties password (character_variety password (length_scoring password (0, []))))
       - (if fst (accumulate password blacklist) then 2 else 0)"
  by (simp add: accumulate_def blacklist_check_def split_def)

lemma remarks_accumulate:
  "snd (snd (accumulate password blacklist)) =
     snd (penalties password (character_variety password (length_scoring password (0, []))))
       @ (if fst (accumulate password blacklist)
          then [''Found in common-password blacklist''] else [])"
  by (simp add: accumulate_def blacklist_check_def split_def)

lemma raw_score_le_7: "fst (snd (accumulate password blacklist)) \<le> 7"
  unfolding score_accumulate fst_penalties fst_character_variety fst_length_scoring
  by (simp split: if_splits)

lemma res_score_eq:
  "res_score (check_strength now password blacklist) =
     (let score = fst (snd (accumulate password blacklist));
          score = (if score < 0 then 0 else score)
      in if 8 < score then 8 else score)"
  by (simp add: check_strength_def split_def Let_def)

lemma res_remarks_eq:
  "res_remarks (check_strength now password blacklist) =
     snd (snd (accumulate password blacklist))"
  by (simp add: check_strength_def split_def Let_def)

subsection \<open>Score bounds\<close>

text \<open>
  C3. For every password (the empty one included) and every blacklist, present or absent,
  the score of the analysis result lies between 0 and 8, both ends included.
\<close>

theorem score_in_range:
  "0 \<le> res_score (check_strength now password blacklist) \<and>
   res_score (check_strength now password blacklist) \<le> 8"
  by (simp add: res_score_eq Let_def)

text \<open>
  C10. The score accumulated before clamping is at most 7 (at most 3 for the length and 1
  for each of the four classes; the penalties only subtract). So the upper clamp never
  fires: the final score is the raw score raised to 0 when negative, and it is never 8.
\<close>

theorem upper_clamp_unreachable:
  "fst (snd (accumulate password blacklist)) \<le> 7 \<and>
   res_score (check_strength now password blacklist) =
     max 0 (fst (snd (accumulate password blacklist))) \<and>
   res_score (check_strength now password blacklist) \<noteq> 8"
  using raw_score_le_7 [of password blacklist] by (simp add: res_score_eq Let_def max_def)

subsection \<open>Remarks\<close>

text \<open>
  C7. The remarks of the analysis result are, in this order: the length remark, the four
  character-variety remarks (lowercase, uppercase, digits, symbols; each only when its
  class is absent), the repeated-characters remark, the common-pattern remark and the
  blacklist remark; each is present exactly when its check fires, and nothing else appears.
\<close>

theorem remarks_order:
  "res_remarks (check_strength now password blacklist) =
     (if length password < 8 then [''Too short (min 8 chars)''] else [])
     @ (if re_search_class lower_class password then [] else [''Add lowercase letters''])
     @ (if re_search_class upper_class password then [] else [''Add uppercase letters''])
     @ (if re_search_class digit_class password then [] else [''Add digits''])
     @ (if re_search_class other_class password then [] else [''Add symbols (!, @, #, etc.)''])
     @ (if has_repeated_sequence password then [''Contains repeated characters''] else [])
     @ (if is_keyboard_pattern password then [''Contains common pattern (qwerty/1234)''] else [])
     @ (case blacklist of None \<Rightarrow> []
        | Some bl \<Rightarrow> if lower password \<in> bl
                     then [''Found in common-password blacklist''] else [])"
  unfolding res_remarks_eq remarks_accumulate snd_penalties snd_character_variety
    snd_length_scoring blacklisted_accumulate
  by (cases blacklist) simp_all

subsection \<open>Repeated characters\<close>

text \<open>The scan finds exactly the runs of three equal characters other than the line feed.\<close>

lemma has_repeated_sequence_iff:
  "has_repeated_sequence pwd =
     (\<exists>xs c ys. pwd = xs @ [c, c, c] @ ys \<and> c \<noteq> CHR 0x0A)"
proof (induction pwd rule: has_repeated_sequence.induct)
  case (1 a b c rest)
  show ?case
  proof
    assume "has_repeated_sequence (a # b # c # rest)"
    then consider "dot_class a \<and> b = a \<and> c = a" | "has_repeated_sequence (b # c # rest)"
      by auto
    then show "\<exists>xs d ys. a # b # c # rest = xs @ [d, d, d] @ ys \<and> d \<noteq> CHR 0x0A"
    proof cases
      case 1
      then have "a # b # c # rest = [] @ [a, a, a] @ rest \<and> a \<noteq> CHR 0x0A"
        by (simp add: dot_class_def)
      then show ?thesis by blast
    next
      case 2
      with "1.IH" obtain xs d ys where "b # c # rest = xs @ [d, d, d] @ ys" "d \<noteq> CHR 0x0A"
        by blast
      then have "a # b # c # rest = (a # xs) @ [d, d, d] @ ys \<and> d \<noteq> CHR 0x0A" by simp
      then show ?thesis by blast
    qed
  next
    assume "\<exists>xs d ys. a # b # c # rest = xs @ [d, d, d] @ ys \<and> d \<noteq> CHR 0x0A"
    then obtain xs d ys where eq: "a # b # c # rest = xs @ [d, d, d] @ ys" and d: "d \<noteq> CHR 0x0A"
      by blast
    show "has_repeated_sequence (a # b # c # rest)"
    proof (cases xs)
      case Nil
      with eq d show ?thesis by (simp add: dot_class_def)
    next
      case (Cons x xs')
      with eq have "b # c # rest = xs' @ [d, d, d] @ ys" by simp
      with d "1.IH" have "has_repeated_sequence (b # c # rest)" by blast
      then show ?thesis by simp
    qed
  qed
qed (auto simp: Cons_eq_append_conv)

text \<open>
  C5. The repeated-sequence check is meant to hold exactly when some character occurs three
  times in a row. On three line feeds in a row it answers \<open>False\<close>: the pattern \<^verbatim>\<open>.\<close>
  does not match a line feed.
\<close>

theorem repeated_newlines_missed:
  "has_repeated_sequence [CHR 0x0A, CHR 0x0A, CHR 0x0A] = False \<and>
   has_repeated_sequence [CHR ''a'', CHR 0x0A, CHR 0x0A, CHR 0x0A, CHR ''b''] = False"
  by (simp add: dot_class_def)

subsection \<open>Generator\<close>

lemma gen_charset_eq:
  "gen_charset use_upper use_digits use_symbols =
     ascii_lowercase @ (if use_upper then ascii_uppercase else [])
       @ (if use_digits then digits else []) @ (if use_symbols then symbols else [])"
  by (simp add: gen_charset_def)

lemma gen_charset_nonempty: "gen_charset use_upper use_digits use_symbols \<noteq> []"
  by (simp add: gen_charset_eq ascii_lowercase_def)

lemma join_choices_ok:
  "charset \<noteq> [] \<Longrightarrow>
   \<exists>cs. join_choices rnd charset n = Inr cs \<and> length cs = n \<and> set cs \<subseteq> set charset"
proof (induction n arbitrary: rnd)
  case 0
  show ?case by simp
next
  case (Suc n)
  from Suc.IH [OF Suc.prems, of "\<lambda>i. rnd (Suc i)"]
  obtain cs where cs: "join_choices (\<lambda>i. rnd (Suc i)) charset n = Inr cs"
    "length cs = n" "set cs \<subseteq> set charset" by blast
  have "rnd 0 mod length charset < length charset" using Suc.prems by simp
  then have "charset ! (rnd 0 mod length charset) \<in> set charset" by (rule nth_mem)
  with cs Suc.prems show ?case by (simp add: choice_def)
qed

text \<open>
  C8. For a positive length the generator returns a string, of exactly that many
  characters, each of them from the charset put together from the lowercase letters
  (always), the uppercase letters, the digits and the symbols, as the flags say.
\<close>

theorem generate_length_and_charset:
  "0 < len \<Longrightarrow>
   \<exists>pw. generate_password rnd len use_upper use_digits use_symbols = Inr pw \<and>
        int (length pw) = len \<and>
        set pw \<subseteq> set (ascii_lowercase @ (if use_upper then ascii_uppercase else [])
                        @ (if use_digits then digits else [])
                        @ (if use_symbols then symbols else []))"
proof -
  assume pos: "0 < len"
  obtain pw where pw: "generate_password rnd len use_upper use_digits use_symbols = Inr pw"
    "length pw = nat len" "set pw \<subseteq> set (gen_charset use_upper use_digits use_symbols)"
    unfolding generate_password_def
    using join_choices_ok [OF gen_charset_nonempty] by blast
  from pw(2) pos have "int (length pw) = len" by simp
  with pw(1,3) show ?thesis unfolding gen_charset_eq by blast
qed

theorem generate_length_and_charset_witness:
  "(0::int) < 3 \<and>
   (\<exists>pw. generate_password sample_draws 3 True False True = Inr pw \<and>
        int (length pw) = 3 \<and>
        set pw \<subseteq> set (ascii_lowercase @ (if True then ascii_uppercase else [])
                        @ (if False then digits else [])
                        @ (if True then symbols else [])))"
  using generate_length_and_charset [of 3 sample_draws True False True] by simp

text \<open>
  C1, as stated: a length of 0 or below makes the generator fail. It does not: the
  generator returns the empty string.
\<close>

theorem generate_nonpositive_counterexample:
  "generate_password sample_draws 0 True True True = Inr [] \<and>
   generate_password sample_draws (- 5) True True True = Inr [] \<and>
   generate_password sample_draws 0 True True True \<noteq> Inl IndexError"
  by (simp add: generate_password_def)

text \<open>
  C1, amended: for every length of 0 or below, and all flags, the generator returns the
  empty string and raises nothing.
\<close>

theorem generate_nonpositive_empty:
  "len \<le> 0 \<Longrightarrow> generate_password rnd len use_upper use_digits use_symbols = Inr []"
  by (simp add: generate_password_def)

theorem generate_nonpositive_empty_witness:
  "(- 5::int) \<le> 0 \<and> generate_password sample_draws (- 5) True False True = Inr []"
  using generate_nonpositive_empty [of "- 5" sample_draws True False True] by simp

subsection \<open>Entropy\<close>

text \<open>Rounding to the even neighbour stays within one half of its argument, is monotone and
  leaves integers alone; so does rounding to hundredths.\<close>

lemma round_half_even_near:
  "real_of_int (round_half_even y) - 1 / 2 \<le> y \<and> y \<le> real_of_int (round_half_even y) + 1 / 2"
  unfolding round_half_even_def Let_def by (simp; linarith)

lemma round_half_even_mono:
  assumes "x \<le> y"
  shows "round_half_even x \<le> round_half_even y"
proof (cases "x = y")
  case True
  then show ?thesis by simp
next
  case False
  with assms have lt: "x < y" by simp
  show ?thesis
  proof (rule ccontr)
    assume "\<not> round_half_even x \<le> round_half_even y"
    then have "round_half_even y + 1 \<le> round_half_even x" by simp
    then have "real_of_int (round_half_even y) + 1 \<le> real_of_int (round_half_even x)"
      by linarith
    moreover have "real_of_int (round_half_even x) - 1 / 2 \<le> x"
      using round_half_even_near [of x] by simp
    moreover have "y \<le> real_of_int (round_half_even y) + 1 / 2"
      using round_half_even_near [of y] by simp
    ultimately show False using lt by linarith
  qed
qed

lemma round_half_even_of_int: "round_half_even (real_of_int n) = n"
  by (simp add: round_half_even_def)

lemma round2_mono: "x \<le> y \<Longrightarrow> round2 x \<le> round2 y"
  unfolding round2_def using round_half_even_mono [of "x * 100" "y * 100"]
  by (simp add: divide_right_mono)

lemma round2_of_int: "round2 (real_of_int n) = real_of_int n"
proof -
  have "real_of_int n * 100 = real_of_int (n * 100)" by simp
  then have "round_half_even (real_of_int n * 100) = n * 100"
    using round_half_even_of_int [of "n * 100"] by simp
  then show ?thesis by (simp add: round2_def)
qed

text \<open>The pool is the sum of the weights of the classes present; it is 0 only for the empty
  password, since every character is in one of the four classes.\<close>

lemma charset_pool_eq:
  "charset_pool password =
     (if re_search_class lower_class password then 26 else 0)
     + (if re_search_class upper_class password then 26 else 0)
     + (if re_search_class digit_class password then 10 else 0)
     + (if re_search_class other_class password then 32 else 0)"
  by (simp add: charset_pool_def)

lemma charset_pool_zero_iff: "charset_pool password = 0 \<longleftrightarrow> password = []"
proof (cases password)
  case Nil
  then show ?thesis by (simp add: charset_pool_eq)
next
  case (Cons c cs)
  then have "re_search_class lower_class password \<or> re_search_class upper_class password
      \<or> re_search_class digit_class password \<or> re_search_class other_class password"
    by (auto simp: other_class_def)
  then show ?thesis using Cons by (auto simp: charset_pool_eq)
qed

lemma charset_pool_ge_10: "password \<noteq> [] \<Longrightarrow> 10 \<le> charset_pool password"
  using charset_pool_zero_iff [of password] by (simp add: charset_pool_eq split: if_splits)

lemma log2_pool_pos: "password \<noteq> [] \<Longrightarrow> 0 < log 2 (real_of_int (charset_pool password))"
  using charset_pool_ge_10 [of password] by simp

lemma calculate_entropy_nonneg: "0 \<le> calculate_entropy password"
proof (cases "password = []")
  case True
  then show ?thesis by (simp add: calculate_entropy_def)
next
  case False
  then have "0 \<le> real (length password) * log 2 (real_of_int (charset_pool password))"
    using log2_pool_pos [of password] by simp
  then have "round2 0 \<le> round2 (real (length password) * log 2 (real_of_int (charset_pool password)))"
    by (rule round2_mono)
  moreover have "round2 0 = 0" using round2_of_int [of 0] by simp
  ultimately show ?thesis by (simp add: calculate_entropy_def Let_def)
qed

lemma log2_32: "log 2 32 = 5"
proof -
  have "log 2 (2 ^ 5) = real 5" by (rule log_pow_cancel) simp_all
  then show ?thesis by simp
qed

text \<open>
  C9. When \<open>p2\<close> is longer than \<open>p1\<close> and both contain the same character classes, they
  have the same pool size and the entropy of \<open>p2\<close> is at least that of \<open>p1\<close>.
\<close>

theorem entropy_monotone_in_length:
  assumes "length p1 < length p2"
    and "re_search_class lower_class p1 = re_search_class lower_class p2"
    and "re_search_class upper_class p1 = re_search_class upper_class p2"
    and "re_search_class digit_class p1 = re_search_class digit_class p2"
    and "re_search_class other_class p1 = re_search_class other_class p2"
  shows "charset_pool p1 = charset_pool p2 \<and> calculate_entropy p1 \<le> calculate_entropy p2"
proof
  show pool: "charset_pool p1 = charset_pool p2"
    using assms(2-5) by (simp add: charset_pool_eq)
  show "calculate_entropy p1 \<le> calculate_entropy p2"
  proof (cases "p1 = []")
    case True
    then have "calculate_entropy p1 = 0" by (simp add: calculate_entropy_def)
    then show ?thesis using calculate_entropy_nonneg [of p2] by simp
  next
    case False
    with assms(1) have ne2: "p2 \<noteq> []" by auto
    have L: "0 < log 2 (real_of_int (charset_pool p2))" using ne2 by (rule log2_pool_pos)
    have "real (length p1) \<le> real (length p2)" using assms(1) by simp
    then have "real (length p1) * log 2 (real_of_int (charset_pool p2))
        \<le> real (length p2) * log 2 (real_of_int (charset_pool p2))"
      using L by (simp add: mult_right_mono)
    then have "round2 (real (length p1) * log 2 (real_of_int (charset_pool p2)))
        \<le> round2 (real (length p2) * log 2 (real_of_int (charset_pool p2)))"
      by (rule round2_mono)
    then show ?thesis
      using False ne2 pool charset_pool_zero_iff [of p1] charset_pool_zero_iff [of p2]
      by (simp add: calculate_entropy_def Let_def)
  qed
qed

theorem entropy_monotone_in_length_witness:
  "length ''ab1'' < length ''abc12'' \<and>
   re_search_class lower_class ''ab1'' = re_search_class lower_class ''abc12'' \<and>
   re_search_class upper_class ''ab1'' = re_search_class upper_class ''abc12'' \<and>
   re_search_class digit_class ''ab1'' = re_search_class digit_class ''abc12'' \<and>
   re_search_class other_class ''ab1'' = re_search_class other_class ''abc12'' \<and>
   charset_pool ''ab1'' = charset_pool ''abc12'' \<and>
   calculate_entropy ''ab1'' \<le> calculate_entropy ''abc12''"
proof -
  have h1: "length ''ab1'' < length ''abc12''" by simp
  have h2: "re_search_class lower_class ''ab1'' = re_search_class lower_class ''abc12''"
    by code_simp
  have h3: "re_search_class upper_class ''ab1'' = re_search_class upper_class ''abc12''"
    by code_simp
  have h4: "re_search_class digit_class ''ab1'' = re_search_class digit_class ''abc12''"
    by code_simp
  have h5: "re_search_class other_class ''ab1'' = re_search_class other_class ''abc12''"
    by code_simp
  from entropy_monotone_in_length [OF h1 h2 h3 h4 h5] h1 h2 h3 h4 h5 show ?thesis by blast
qed

subsection \<open>Strength level\<close>

lemma entropy_ge_80:
  assumes "16 \<le> length password" and "32 \<le> charset_pool password"
  shows "80 \<le> calculate_entropy password"
proof -
  have "log 2 32 \<le> log 2 (real_of_int (charset_pool password))"
    using assms(2) by simp
  then have L: "5 \<le> log 2 (real_of_int (charset_pool password))" by (simp add: log2_32)
  have "16 \<le> real (length password)" using assms(1) by simp
  then have "16 * 5 \<le> real (length password) * log 2 (real_of_int (charset_pool password))"
    using L by (intro mult_mono) simp_all
  then have "round2 (real_of_int 80)
      \<le> round2 (real (length password) * log 2 (real_of_int (charset_pool password)))"
    by (intro round2_mono) simp
  then have "80 \<le> round2 (real (length password) * log 2 (real_of_int (charset_pool password)))"
    unfolding round2_of_int by simp
  moreover have "charset_pool password \<noteq> 0" "length password \<noteq> 0" using assms by auto
  ultimately show ?thesis by (simp add: calculate_entropy_def Let_def)
qed

lemma res_level_eq:
  "res_level (check_strength now password blacklist) =
     (if fst (accumulate password blacklist) then ''Very Weak''
      else if 80 \<le> res_entropy (check_strength now password blacklist) \<and>
              6 \<le> res_score (check_strength now password blacklist) then ''Strong''
      else if 50 \<le> res_entropy (check_strength now password blacklist) \<and>
              4 \<le> res_score (check_strength now password blacklist) then ''Medium''
      else ''Weak'')"
  by (simp add: check_strength_def split_def Let_def)

lemma res_entropy_eq:
  "res_entropy (check_strength now password blacklist) = calculate_entropy password"
  by (simp add: check_strength_def split_def Let_def)

text \<open>
  C2. The level of the analysis result is decided in this order, the first match winning:
  blacklisted gives "Very Weak"; else entropy at least 80 and score at least 6 give
  "Strong"; else entropy at least 50 and score at least 4 give "Medium"; else "Weak".
  So a password classified "Strong" has score at least 6 and entropy at least 80.
\<close>

theorem level_priority:
  "res_level (check_strength now password blacklist) =
     (if (case blacklist of None \<Rightarrow> False | Some bl \<Rightarrow> lower password \<in> bl) then ''Very Weak''
      else if 80 \<le> res_entropy (check_strength now password blacklist) \<and>
              6 \<le> res_score (check_strength now password blacklist) then ''Strong''
      else if 50 \<le> res_entropy (check_strength now password blacklist) \<and>
              4 \<le> res_score (check_strength now password blacklist) then ''Medium''
      else ''Weak'') \<and>
   (res_level (check_strength now password blacklist) = ''Strong'' \<longrightarrow>
      6 \<le> res_score (check_strength now password blacklist) \<and>
      80 \<le> res_entropy (check_strength now password blacklist))"
  unfolding res_level_eq blacklisted_accumulate by simp

theorem level_priority_witness:
  "res_level (check_strength ''2025-01-01 00:00:00'' ''Tr0ub4dor&3xKq9!z'' None) = ''Strong'' \<and>
   6 \<le> res_score (check_strength ''2025-01-01 00:00:00'' ''Tr0ub4dor&3xKq9!z'' None) \<and>
   80 \<le> res_entropy (check_strength ''2025-01-01 00:00:00'' ''Tr0ub4dor&3xKq9!z'' None)"
proof -
  have pool: "charset_pool ''Tr0ub4dor&3xKq9!z'' = 94" by code_simp
  have "80 \<le> calculate_entropy ''Tr0ub4dor&3xKq9!z''"
    by (rule entropy_ge_80) (simp_all add: pool)
  then have e: "80 \<le> res_entropy (check_strength ''2025-01-01 00:00:00'' ''Tr0ub4dor&3xKq9!z'' None)"
    by (simp add: res_entropy_eq)
  have "fst (snd (accumulate ''Tr0ub4dor&3xKq9!z'' None)) = 7" by code_simp
  then have s: "res_score (check_strength ''2025-01-01 00:00:00'' ''Tr0ub4dor&3xKq9!z'' None) = 7"
    by (simp add: res_score_eq)
  from level_priority [of "''2025-01-01 00:00:00''" "''Tr0ub4dor&3xKq9!z''" None] e s
  show ?thesis by simp
qed

subsection \<open>Blacklist\<close>

text \<open>
  C6. With a blacklist supplied, the password is flagged as blacklisted exactly when its
  lowercased form is in the blacklist. When it is, the raw score is 2 below and the remarks
  are one longer, by "Found in common-password blacklist" at the end, than without a
  blacklist, and the level is "Very Weak". The witness is the analysis of "Password1"
  against the blacklist {"password1"}.
\<close>

theorem blacklist_penalty:
  "fst (accumulate password (Some bl)) = (lower password \<in> bl) \<and>
   (lower password \<in> bl \<longrightarrow>
      fst (snd (accumulate password (Some bl))) = fst (snd (accumulate password None)) - 2 \<and>
      res_remarks (check_strength now password (Some bl)) =
        res_remarks (check_strength now password None) @ [''Found in common-password blacklist''] \<and>
      res_level (check_strength now password (Some bl)) = ''Very Weak'')"
  by (simp add: res_level_eq res_remarks_eq remarks_accumulate score_accumulate
      blacklisted_accumulate)

theorem blacklist_penalty_witness:
  "lower ''Password1'' \<in> {''password1''} \<and>
   fst (accumulate ''Password1'' (Some {''password1''})) \<and>
   fst (snd (accumulate ''Password1'' (Some {''password1''}))) =
     fst (snd (accumulate ''Password1'' None)) - 2 \<and>
   res_remarks (check_strength ''2025-01-01 00:00:00'' ''Password1'' (Some {''password1''})) =
     res_remarks (check_strength ''2025-01-01 00:00:00'' ''Password1'' None)
       @ [''Found in common-password blacklist''] \<and>
   res_level (check_strength ''2025-01-01 00:00:00'' ''Password1'' (Some {''password1''})) =
     ''Very Weak''"
proof -
  have h: "lower ''Password1'' \<in> {''password1''}" by code_simp
  from blacklist_penalty [of "''Password1''" "{''password1''}" "''2025-01-01 00:00:00''"] h
  show ?thesis by blast
qed

end
